theory Spec2Isabelle
  imports Complex_Main "HOL-Library.Sublist"
begin

section \<open>Data model\<close>

text \<open>
  The engine computes on \<^verbatim>\<open>Decimal\<close> values (decimal.js) and on JavaScript numbers.
  Both are modelled as rationals: the arithmetic of the model is exact, and the values are
  finite (neither \<^verbatim>\<open>NaN\<close> nor an infinity). Decimal literals such as \<^verbatim>\<open>'0.99'\<close> become
  the fraction they denote. Priorities, retry counts and clock readings (milliseconds) are
  integers. A \<^verbatim>\<open>Map\<close> is a partial function on its keys; an optional field is an
  \<open>option\<close>.
\<close>

datatype MarketplaceCode = DE | FR | IT | ES

datatype DealTier = Low | Medium | High

datatype FulfillmentType = FBA | FBM

record Dimensions =
  dim_length :: rat
  dim_width :: rat
  dim_height :: rat

record FeeCalculationParams =
  p_salePrice :: rat
  p_category :: string
  p_fulfillmentType :: FulfillmentType
  p_marketplace :: MarketplaceCode
  p_productWeight :: "rat option"
  p_productDimensions :: "Dimensions option"
  p_isMedia :: "bool option"

record FbaFees =
  smallStandard :: rat
  standard :: rat
  largeStandard :: rat
  specialOversize :: rat

record FeeBreakdown =
  referralFee :: rat
  fulfillmentFee :: rat
  storageFee :: rat
  vat :: rat
  shippingCost :: rat
  total :: rat

record DealMetrics =
  salePrice :: rat
  costPrice :: rat
  totalFees :: rat
  profit :: rat
  margin :: rat
  roi :: rat

record ProductData =
  asin :: string
  marketplace :: MarketplaceCode
  title :: string
  price :: rat
  currency :: string
  availability :: bool
  rating :: rat
  reviewCount :: int
  salesRank :: rat
  seller :: string
  isPrime :: bool
  imageUrl :: "string option"
  productUrl :: string
  timestamp :: int

record Deal =
  deal_id :: string
  product :: ProductData
  metrics :: DealMetrics
  feeBreakdown :: FeeBreakdown
  tier :: DealTier
  fulfillmentType :: FulfillmentType
  detectedAt :: int

record DealTierConfig =
  minMargin :: rat
  maxMargin :: "rat option"
  minRoi :: rat
  maxRoi :: "rat option"
  role :: string
  color :: int


record AnalysisOptions =
  o_costPrice :: rat
  o_fulfillmentType :: FulfillmentType
  o_category :: "string option"
  o_productWeight :: "rat option"
  o_productDimensions :: "Dimensions option"
  o_isMedia :: "bool option"

section \<open>Fee calculator (\<^verbatim>\<open>fee-calculator.ts\<close>)\<close>

definition REFERRAL_FEES :: "(string \<times> rat) list" where
  "REFERRAL_FEES =
    [(''default'', 15 / 100),
     (''Consumer Electronics'', 8 / 100),
     (''Computers'', 7 / 100),
     (''Camera & Photo'', 8 / 100),
     (''Home & Garden'', 15 / 100),
     (''Toys & Games'', 15 / 100),
     (''Sports & Outdoors'', 15 / 100),
     (''Books'', 15 / 100),
     (''Music'', 15 / 100),
     (''DVD & Blu-ray'', 15 / 100),
     (''Software'', 15 / 100),
     (''Video Games'', 15 / 100),
     (''Kitchen'', 15 / 100),
     (''Pet Supplies'', 15 / 100),
     (''Baby'', 15 / 100),
     (''Health & Personal Care'', 15 / 100),
     (''Beauty'', 15 / 100),
     (''Clothing'', 17 / 100),
     (''Shoes & Jewelry'', 17 / 100),
     (''Watches'', 16 / 100),
     (''Automotive'', 12 / 100),
     (''Tools & Home Improvement'', 15 / 100),
     (''Grocery'', 15 / 100)]"

fun VAT_RATES :: "MarketplaceCode \<Rightarrow> rat" where
  "VAT_RATES DE = 19 / 100"
| "VAT_RATES FR = 20 / 100"
| "VAT_RATES IT = 22 / 100"
| "VAT_RATES ES = 21 / 100"

fun CLOSING_FEES :: "MarketplaceCode \<Rightarrow> rat" where
  "CLOSING_FEES DE = 99 / 100"
| "CLOSING_FEES FR = 99 / 100"
| "CLOSING_FEES IT = 99 / 100"
| "CLOSING_FEES ES = 99 / 100"

fun FBA_FEES :: "MarketplaceCode \<Rightarrow> FbaFees" where
  "FBA_FEES DE = \<lparr>smallStandard = 250 / 100, standard = 322 / 100,
                  largeStandard = 475 / 100, specialOversize = 850 / 100\<rparr>"
| "FBA_FEES FR = \<lparr>smallStandard = 250 / 100, standard = 322 / 100,
                  largeStandard = 475 / 100, specialOversize = 850 / 100\<rparr>"
| "FBA_FEES IT = \<lparr>smallStandard = 250 / 100, standard = 322 / 100,
                  largeStandard = 475 / 100, specialOversize = 850 / 100\<rparr>"
| "FBA_FEES ES = \<lparr>smallStandard = 250 / 100, standard = 322 / 100,
                  largeStandard = 475 / 100, specialOversize = 850 / 100\<rparr>"

definition FBA_WEIGHT_FEE :: rat where
  "FBA_WEIGHT_FEE = 42 / 100"

text \<open>
  \<^verbatim>\<open>REFERRAL_FEES[category] || REFERRAL_FEES.default\<close>: the table entry when the category
  is a key of the table and its rate is not zero, the default rate otherwise. Categories
  are product category names; the lookup is among the keys the table itself lists.
\<close>

definition getReferralFeeRate :: "string \<Rightarrow> rat" where
  "getReferralFeeRate cat =
     (case map_of REFERRAL_FEES cat of
        Some r \<Rightarrow> if r \<noteq> 0 then r else 15 / 100
      | None \<Rightarrow> 15 / 100)"

text \<open>
  The three edges sorted ascending; the source sorts the array \<^verbatim>\<open>[length, width, height]\<close>
  with the comparator \<^verbatim>\<open>a.minus(b)\<close> and reads index 1 (median) and index 0 (shortest).
\<close>

definition sortedSides :: "Dimensions \<Rightarrow> rat list" where
  "sortedSides d = sort [dim_length d, dim_width d, dim_height d]"

definition calculateFBAFee ::
  "MarketplaceCode \<Rightarrow> rat option \<Rightarrow> Dimensions option \<Rightarrow> rat" where
  "calculateFBAFee mp weight dimensions =
     (let fbaFees = FBA_FEES mp;
          baseFee =
            (case dimensions of
               None \<Rightarrow> standard fbaFees
             | Some d \<Rightarrow>
                 (let volume = dim_length d * dim_width d * dim_height d;
                      longestSide = max (max (dim_length d) (dim_width d)) (dim_height d);
                      medianSide = sortedSides d ! 1;
                      shortestSide = sortedSides d ! 0
                  in if volume \<le> 1600 \<and> longestSide \<le> 45 \<and> medianSide \<le> 35
                        \<and> shortestSide \<le> 20
                        \<and> (case weight of None \<Rightarrow> True | Some w \<Rightarrow> w \<le> 1)
                     then smallStandard fbaFees
                     else if longestSide \<le> 61 \<and> medianSide \<le> 46 \<and> shortestSide \<le> 46
                     then standard fbaFees
                     else if longestSide \<le> 120 \<and> medianSide \<le> 60 \<and> shortestSide \<le> 60
                     then largeStandard fbaFees
                     else specialOversize fbaFees));
          weightFee =
            (case weight of
               None \<Rightarrow> 0
             | Some w \<Rightarrow> if w > 1 then (w - 1) * FBA_WEIGHT_FEE else 0)
      in baseFee + weightFee)"

definition calculateStorageFee :: "FulfillmentType \<Rightarrow> Dimensions option \<Rightarrow> rat" where
  "calculateStorageFee ft dimensions =
     (if ft \<noteq> FBA then 0
      else (let baseStorageFee = 26 / 100
            in case dimensions of
                 Some d \<Rightarrow> dim_length d * dim_width d * dim_height d / 1000000 * baseStorageFee
               | None \<Rightarrow> 10 / 100))"

definition calculateShippingCost :: "rat option \<Rightarrow> Dimensions option \<Rightarrow> rat" where
  "calculateShippingCost weight dimensions =
     (let baseShipping = 350 / 100
      in case weight of
           None \<Rightarrow> baseShipping
         | Some w \<Rightarrow>
             if w > 5 / 10 then baseShipping + (w - 5 / 10) * (150 / 100)
             else baseShipping)"

text \<open>The closing fee of \<^verbatim>\<open>calculateFees\<close>: charged only when \<^verbatim>\<open>isMedia\<close> is truthy.\<close>

definition closingFee :: "FeeCalculationParams \<Rightarrow> rat" where
  "closingFee params =
     (case p_isMedia params of
        Some True \<Rightarrow> CLOSING_FEES (p_marketplace params)
      | _ \<Rightarrow> 0)"

definition calculateFees :: "FeeCalculationParams \<Rightarrow> FeeBreakdown" where
  "calculateFees params =
     (let referralFeeRate = getReferralFeeRate (p_category params);
          referralFee' = p_salePrice params * referralFeeRate;
          closingFee' = closingFee params;
          fulfillmentFee' =
            (if p_fulfillmentType params = FBA
             then calculateFBAFee (p_marketplace params) (p_productWeight params)
                    (p_productDimensions params)
             else 0);
          storageFee' =
            calculateStorageFee (p_fulfillmentType params) (p_productDimensions params);
          vatRate = VAT_RATES (p_marketplace params);
          vat' = p_salePrice params * vatRate;
          shippingCost' =
            (if p_fulfillmentType params = FBM
             then calculateShippingCost (p_productWeight params) (p_productDimensions params)
             else 0);
          total' = referralFee' + closingFee' + fulfillmentFee' + storageFee' + vat'
                     + shippingCost'
      in \<lparr>referralFee = referralFee', fulfillmentFee = fulfillmentFee',
          storageFee = storageFee', vat = vat', shippingCost = shippingCost',
          total = total'\<rparr>)"

section \<open>Deal classifier (\<^verbatim>\<open>deal-classifier.ts\<close>)\<close>

text \<open>
  The result of \<^verbatim>\<open>classify\<close>. The \<^verbatim>\<open>reasons\<close> field, a list of messages formatted
  from the numbers, plays no part in the tier decision and is left out.
\<close>

record ClassificationResult =
  cr_tier :: DealTier
  qualifies :: bool

definition checkTier :: "(DealTier \<Rightarrow> DealTierConfig) \<Rightarrow> Deal \<Rightarrow> DealTier \<Rightarrow> bool" where
  "checkTier tierConfigs deal t =
     (let config = tierConfigs t;
          m = margin (metrics deal);
          r = roi (metrics deal)
      in if m < minMargin config then False
         else if (case maxMargin config of None \<Rightarrow> False | Some mx \<Rightarrow> m > mx) then False
         else if r < minRoi config then False
         else if (case maxRoi config of None \<Rightarrow> False | Some mx \<Rightarrow> r > mx) then False
         else True)"

definition classify :: "(DealTier \<Rightarrow> DealTierConfig) \<Rightarrow> Deal \<Rightarrow> ClassificationResult" where
  "classify tierConfigs deal =
     (if checkTier tierConfigs deal High then \<lparr>cr_tier = High, qualifies = True\<rparr>
      else if checkTier tierConfigs deal Medium then \<lparr>cr_tier = Medium, qualifies = True\<rparr>
      else if checkTier tierConfigs deal Low then \<lparr>cr_tier = Low, qualifies = True\<rparr>
      else \<lparr>cr_tier = Low, qualifies = False\<rparr>)"

section \<open>Deal analyzer (\<^verbatim>\<open>analyzer.ts\<close>)\<close>

definition calculateMetrics :: "rat \<Rightarrow> rat \<Rightarrow> rat \<Rightarrow> DealMetrics" where
  "calculateMetrics sp cp tf =
     (let profit' = sp - cp - tf;
          margin' = (if sp > 0 then profit' / sp * 100 else 0);
          roi' = (if cp > 0 then profit' / cp * 100 else 0)
      in \<lparr>salePrice = sp, costPrice = cp, totalFees = tf, profit = profit',
          margin = margin', roi = roi'\<rparr>)"

text \<open>
  \<^verbatim>\<open>analyze\<close> draws a fresh identifier from \<^verbatim>\<open>uuidv4()\<close> and reads the clock once; both
  are parameters of the model (\<open>uid\<close>, \<open>now\<close>). Its debug log line is not modelled.
\<close>

definition analyze ::
  "(DealTier \<Rightarrow> DealTierConfig) \<Rightarrow> string \<Rightarrow> int \<Rightarrow> ProductData \<Rightarrow> AnalysisOptions \<Rightarrow> Deal" where
  "analyze tierConfigs uid now pd opts =
     (let feeParams =
            \<lparr>p_salePrice = price pd,
             p_category = (case o_category opts of None \<Rightarrow> ''default'' | Some c \<Rightarrow> c),
             p_fulfillmentType = o_fulfillmentType opts,
             p_marketplace = marketplace pd,
             p_productWeight = o_productWeight opts,
             p_productDimensions = o_productDimensions opts,
             p_isMedia = Some (case o_isMedia opts of None \<Rightarrow> False | Some b \<Rightarrow> b)\<rparr>;
          fb = calculateFees feeParams;
          ms = calculateMetrics (price pd) (o_costPrice opts) (total fb);
          deal = \<lparr>deal_id = uid, product = pd, metrics = ms, feeBreakdown = fb,
                   tier = Low, fulfillmentType = o_fulfillmentType opts, detectedAt = now\<rparr>;
          classification = classify tierConfigs deal
      in deal\<lparr>tier := cr_tier classification\<rparr>)"




section \<open>Deal filter (\<^verbatim>\<open>deal-filter.ts\<close>)\<close>



section \<open>Price history (\<^verbatim>\<open>price-history.ts\<close>)\<close>

record PriceHistoryEntry =
  e_asin :: string
  e_marketplace :: MarketplaceCode
  e_price :: rat
  e_timestamp :: int

record PriceChangeAlert =
  a_asin :: string
  a_marketplace :: MarketplaceCode
  oldPrice :: rat
  newPrice :: rat
  changeAmount :: rat
  changePercentage :: rat
  a_timestamp :: int

record PriceHistoryManager =
  history :: "string \<rightharpoonup> PriceHistoryEntry list"
  lastPrices :: "string \<rightharpoonup> rat"

definition newPriceHistoryManager :: PriceHistoryManager where
  "newPriceHistoryManager = \<lparr>history = Map.empty, lastPrices = Map.empty\<rparr>"

fun marketplaceString :: "MarketplaceCode \<Rightarrow> string" where
  "marketplaceString DE = ''DE''"
| "marketplaceString FR = ''FR''"
| "marketplaceString IT = ''IT''"
| "marketplaceString ES = ''ES''"

definition getKey :: "string \<Rightarrow> MarketplaceCode \<Rightarrow> string" where
  "getKey a mp = a @ '':'' @ marketplaceString mp"

definition addPriceEntry ::
  "PriceHistoryEntry \<Rightarrow> PriceHistoryManager \<Rightarrow> PriceChangeAlert option \<times> PriceHistoryManager" where
  "addPriceEntry entry m =
     (let key = getKey (e_asin entry) (e_marketplace entry);
          lastPrice = lastPrices m key;
          alert =
            (case lastPrice of
               None \<Rightarrow> None
             | Some lp \<Rightarrow>
                 if lp \<noteq> e_price entry
                 then (let changeAmount' = e_price entry - lp;
                           changePercentage' =
                             (if lp > 0 then changeAmount' / lp * 100 else 0)
                       in Some \<lparr>a_asin = e_asin entry,
                                 a_marketplace = e_marketplace entry,
                                 oldPrice = lp, newPrice = e_price entry,
                                 changeAmount = changeAmount',
                                 changePercentage = changePercentage',
                                 a_timestamp = e_timestamp entry\<rparr>)
                 else None);
          h0 = (case history m key of None \<Rightarrow> [] | Some h \<Rightarrow> h);
          h1 = h0 @ [entry];
          h2 = (if length h1 > 1000 then tl h1 else h1)
      in (alert, m\<lparr>history := (history m)(key \<mapsto> h2),
                    lastPrices := (lastPrices m)(key \<mapsto> e_price entry)\<rparr>))"

text \<open>\<^verbatim>\<open>Array.prototype.slice(start)\<close> for an integer \<open>start\<close>.\<close>

definition sliceFrom :: "int \<Rightarrow> 'a list \<Rightarrow> 'a list" where
  "sliceFrom start xs =
     (if start < 0 then drop (nat (max (int (length xs) + start) 0)) xs
      else drop (nat (min start (int (length xs)))) xs)"

definition getPriceHistory ::
  "PriceHistoryManager \<Rightarrow> string \<Rightarrow> MarketplaceCode \<Rightarrow> int option \<Rightarrow> PriceHistoryEntry list" where
  "getPriceHistory m a mp limit =
     (let key = getKey a mp;
          h = (case history m key of None \<Rightarrow> [] | Some h \<Rightarrow> h)
      in case limit of
           None \<Rightarrow> h
         | Some l \<Rightarrow> if l \<noteq> 0 then sliceFrom (- l) h else h)"

definition getLastPrice :: "PriceHistoryManager \<Rightarrow> string \<Rightarrow> MarketplaceCode \<Rightarrow> rat option" where
  "getLastPrice m a mp = lastPrices m (getKey a mp)"

text \<open>A sequence of \<^verbatim>\<open>addPriceEntry\<close> calls on a new manager, the alerts dropped.\<close>

definition addPriceEntries :: "PriceHistoryEntry list \<Rightarrow> PriceHistoryManager" where
  "addPriceEntries es = foldl (\<lambda>m e. snd (addPriceEntry e m)) newPriceHistoryManager es"

section \<open>Task queue (\<^verbatim>\<open>task-queue.ts\<close>)\<close>

datatype TaskType = ProductTask | CategoryTask

datatype TaskStatus = Pending | Running | Completed | Failed

record Task =
  t_id :: string
  t_type :: TaskType
  target :: string
  t_marketplace :: MarketplaceCode
  priority :: int
  createdAt :: int
  scheduledAt :: "int option"
  startedAt :: "int option"
  completedAt :: "int option"
  status :: TaskStatus
  retryCount :: int
  maxRetries :: int
  t_error :: "string option"

text \<open>The argument of \<^verbatim>\<open>addTask\<close>: a task without id, creation time, status and retry count.\<close>

record TaskSpec =
  s_type :: TaskType
  s_target :: string
  s_marketplace :: MarketplaceCode
  s_priority :: int
  s_scheduledAt :: "int option"
  s_startedAt :: "int option"
  s_completedAt :: "int option"
  s_maxRetries :: int
  s_error :: "string option"

record TaskResult =
  r_taskId :: string
  success :: bool
  r_data :: "string option"
  r_error :: "string option"
  duration :: int

text \<open>The argument of \<^verbatim>\<open>completeTask\<close>: a result without the task id.\<close>

record ResultSpec =
  rs_success :: bool
  rs_data :: "string option"
  rs_error :: "string option"
  rs_duration :: int

record TaskQueue =
  queue :: "Task list"
  runningTasks :: "string \<rightharpoonup> Task"
  completedTasks :: "string \<rightharpoonup> TaskResult"
  taskDurations :: "int list"

definition newTaskQueue :: TaskQueue where
  "newTaskQueue = \<lparr>queue = [], runningTasks = Map.empty, completedTasks = Map.empty,
                    taskDurations = []\<rparr>"

text \<open>
  \<^verbatim>\<open>queue.sort((a, b) => b.priority - a.priority)\<close>: a stable sort, higher priority first.
\<close>

definition sortQueue :: "Task list \<Rightarrow> Task list" where
  "sortQueue ts = sort_key (\<lambda>t. - priority t) ts"

text \<open>
  \<^verbatim>\<open>addTask\<close>; \<open>uid\<close> is the result of \<^verbatim>\<open>uuidv4()\<close> and \<open>now\<close> the clock reading of
  \<^verbatim>\<open>new Date()\<close>, in milliseconds.
\<close>

definition addTask :: "string \<Rightarrow> int \<Rightarrow> TaskSpec \<Rightarrow> TaskQueue \<Rightarrow> string \<times> TaskQueue" where
  "addTask uid now spec q =
     (let newTask =
            \<lparr>t_id = uid, t_type = s_type spec, target = s_target spec,
             t_marketplace = s_marketplace spec, priority = s_priority spec,
             createdAt = now, scheduledAt = s_scheduledAt spec,
             startedAt = s_startedAt spec, completedAt = s_completedAt spec,
             status = Pending, retryCount = 0, maxRetries = s_maxRetries spec,
             t_error = s_error spec\<rparr>
      in (uid, q\<lparr>queue := sortQueue (queue q @ [newTask])\<rparr>))"

definition getNextTask :: "int \<Rightarrow> TaskQueue \<Rightarrow> Task option \<times> TaskQueue" where
  "getNextTask now q =
     (case queue q of
        [] \<Rightarrow> (None, q)
      | t # rest \<Rightarrow>
          (let task = t\<lparr>status := Running, startedAt := Some now\<rparr>
           in (Some task,
               q\<lparr>queue := rest, runningTasks := (runningTasks q)(t_id task \<mapsto> task)\<rparr>)))"

text \<open>
  The loop of \<^verbatim>\<open>getNextTasks\<close>; \<open>clock i\<close> is the clock reading in iteration \<open>i\<close>.
\<close>

function getNextTasksLoop ::
  "(nat \<Rightarrow> int) \<Rightarrow> int \<Rightarrow> nat \<Rightarrow> Task list \<Rightarrow> TaskQueue \<Rightarrow> Task list \<times> TaskQueue" where
  "getNextTasksLoop clock count i tasks q =
     (if int i < count \<and> length (queue q) > 0
      then (case getNextTask (clock i) q of
              (Some task, q') \<Rightarrow> getNextTasksLoop clock count (Suc i) (tasks @ [task]) q'
            | (None, q') \<Rightarrow> getNextTasksLoop clock count (Suc i) tasks q')
      else (tasks, q))"
  by pat_completeness auto
termination
  by (relation "measure (\<lambda>(clock, count, i, tasks, q). nat (count - int i))") auto

declare getNextTasksLoop.simps [simp del]

definition getNextTasks :: "(nat \<Rightarrow> int) \<Rightarrow> int \<Rightarrow> TaskQueue \<Rightarrow> Task list \<times> TaskQueue" where
  "getNextTasks clock count q = getNextTasksLoop clock count 0 [] q"

text \<open>
  \<^verbatim>\<open>task.startedAt?.getTime() || task.createdAt.getTime()\<close>: the start time, unless it is
  absent or the epoch itself (zero is falsy), then the creation time.
\<close>

definition startOrCreated :: "Task \<Rightarrow> int" where
  "startOrCreated task =
     (case startedAt task of
        None \<Rightarrow> createdAt task
      | Some st \<Rightarrow> if st \<noteq> 0 then st else createdAt task)"

definition completeTask :: "int \<Rightarrow> string \<Rightarrow> ResultSpec \<Rightarrow> TaskQueue \<Rightarrow> TaskQueue" where
  "completeTask now taskId result q =
     (case runningTasks q taskId of
        None \<Rightarrow> q
      | Some task \<Rightarrow>
          (let task' = task\<lparr>status := Completed, completedAt := Some now\<rparr>;
               duration' = now - startOrCreated task';
               durs = taskDurations q @ [duration'];
               durs' = (if length durs > 100 then tl durs else durs)
           in q\<lparr>runningTasks := (runningTasks q)(taskId := None),
                completedTasks := (completedTasks q)(taskId \<mapsto>
                  \<lparr>r_taskId = taskId, success = rs_success result, r_data = rs_data result,
                   r_error = rs_error result, duration = duration'\<rparr>),
                taskDurations := durs'\<rparr>))"

text \<open>
  The field updates \<^verbatim>\<open>failTask\<close> makes on the task object: the retry count is incremented
  first, and the incremented count is compared with \<^verbatim>\<open>maxRetries\<close>.
\<close>

definition failTaskObject :: "int \<Rightarrow> string \<Rightarrow> Task \<Rightarrow> Task" where
  "failTaskObject now err task =
     (let task1 = task\<lparr>retryCount := retryCount task + 1\<rparr>
      in if retryCount task1 < maxRetries task1
         then task1\<lparr>status := Pending, startedAt := None, t_error := Some err\<rparr>
         else task1\<lparr>status := Failed, completedAt := Some now, t_error := Some err\<rparr>)"

definition failTask :: "int \<Rightarrow> string \<Rightarrow> string \<Rightarrow> TaskQueue \<Rightarrow> TaskQueue" where
  "failTask now taskId err q =
     (case runningTasks q taskId of
        None \<Rightarrow> q
      | Some task \<Rightarrow>
          (let task' = failTaskObject now err task
           in if retryCount task' < maxRetries task'
              then q\<lparr>runningTasks := (runningTasks q)(taskId := None),
                     queue := sortQueue (queue q @ [task'])\<rparr>
              else (let duration' = now - startOrCreated task'
                    in q\<lparr>runningTasks := (runningTasks q)(taskId := None),
                         completedTasks := (completedTasks q)(taskId \<mapsto>
                           \<lparr>r_taskId = taskId, success = False, r_data = None,
                            r_error = Some err, duration = duration'\<rparr>)\<rparr>)))"

text \<open>
  The states of a queue: a new queue, changed by calls of its methods. Each call of
  \<^verbatim>\<open>addTask\<close> draws an identifier from \<^verbatim>\<open>uuidv4()\<close> that no task of the queue carries.
\<close>

definition taskIds :: "TaskQueue \<Rightarrow> string set" where
  "taskIds q = t_id ` set (queue q) \<union> dom (runningTasks q) \<union> dom (completedTasks q)"

inductive reachable :: "TaskQueue \<Rightarrow> bool" where
  r_new: "reachable newTaskQueue"
| r_add: "reachable q \<Longrightarrow> uid \<notin> taskIds q \<Longrightarrow> reachable (snd (addTask uid now spec q))"
| r_next: "reachable q \<Longrightarrow> reachable (snd (getNextTask now q))"
| r_nexts: "reachable q \<Longrightarrow> reachable (snd (getNextTasks clock count q))"
| r_complete: "reachable q \<Longrightarrow> reachable (completeTask now taskId result q)"
| r_fail: "reachable q \<Longrightarrow> reachable (failTask now taskId err q)"

section \<open>Specification-side definitions\<close>


text \<open>
  The observations of one product on one marketplace among a sequence of entries, in
  the order of the calls, and the price of the latest of them.
\<close>

definition entriesFor :: "string \<Rightarrow> MarketplaceCode \<Rightarrow> PriceHistoryEntry list \<Rightarrow> PriceHistoryEntry list" where
  "entriesFor a mp es = filter (\<lambda>e. e_asin e = a \<and> e_marketplace e = mp) es"


text \<open>
  The invariant of the task queue: pending identifiers are pairwise distinct, no pending
  task is in the running map, and the running map stores each task under its own id.
\<close>

definition queueInv :: "TaskQueue \<Rightarrow> bool" where
  "queueInv q =
     (distinct (map t_id (queue q))
      \<and> (\<forall>t \<in> set (queue q). runningTasks q (t_id t) = None)
      \<and> (\<forall>k t. runningTasks q k = Some t \<longrightarrow> t_id t = k))"

section \<open>Example inputs\<close>



text \<open>Three tiers with one and the same band, so that every band overlaps the others.\<close>

definition overlappingTiers :: "DealTier \<Rightarrow> DealTierConfig" where
  "overlappingTiers t =
     \<lparr>minMargin = 10, maxMargin = None, minRoi = 10, maxRoi = None,
      role = ''Any'', color = 0\<rparr>"

definition exampleProduct :: ProductData where
  "exampleProduct =
     \<lparr>asin = ''B08N5WRWNW'', marketplace = DE, title = ''Test Product'', price = 100,
      currency = ''EUR'', availability = True, rating = 45 / 10, reviewCount = 100,
      salesRank = 1000, seller = ''Amazon'', isPrime = True, imageUrl = None,
      productUrl = ''https://www.amazon.de/dp/B08N5WRWNW'', timestamp = 0\<rparr>"

definition exampleOptions :: AnalysisOptions where
  "exampleOptions =
     \<lparr>o_costPrice = 40, o_fulfillmentType = FBA, o_category = Some ''default'',
      o_productWeight = None, o_productDimensions = None, o_isMedia = None\<rparr>"

definition exampleDeal :: Deal where
  "exampleDeal = analyze overlappingTiers ''deal-1'' 0 exampleProduct exampleOptions"



definition entry100 :: PriceHistoryEntry where
  "entry100 = \<lparr>e_asin = ''B08N5WRWNW'', e_marketplace = DE, e_price = 100, e_timestamp = 1\<rparr>"

definition entry90 :: PriceHistoryEntry where
  "entry90 = \<lparr>e_asin = ''B08N5WRWNW'', e_marketplace = DE, e_price = 90, e_timestamp = 2\<rparr>"

text \<open>A task that allows one retry, enqueued on a new queue and then dequeued once.\<close>

definition retrySpec :: TaskSpec where
  "retrySpec =
     \<lparr>s_type = ProductTask, s_target = ''B08N5WRWNW'', s_marketplace = DE, s_priority = 1,
      s_scheduledAt = None, s_startedAt = None, s_completedAt = None, s_maxRetries = 1,
      s_error = None\<rparr>"

definition pendingOnce :: TaskQueue where
  "pendingOnce = snd (addTask ''task-1'' 0 retrySpec newTaskQueue)"

definition runningOnce :: TaskQueue where
  "runningOnce = snd (getNextTask 10 pendingOnce)"

definition okResult :: ResultSpec where
  "okResult = \<lparr>rs_success = True, rs_data = None, rs_error = None, rs_duration = 5\<rparr>"

section \<open>Facts about the example inputs\<close>

lemma exampleDeal_fees:
  "feeBreakdown exampleDeal =
     \<lparr>referralFee = 15, fulfillmentFee = 322 / 100, storageFee = 10 / 100, vat = 19,
      shippingCost = 0, total = 3732 / 100\<rparr>"
  by (simp add: exampleDeal_def analyze_def exampleProduct_def exampleOptions_def Let_def
      calculateFees_def closingFee_def calculateFBAFee_def calculateStorageFee_def
      getReferralFeeRate_def REFERRAL_FEES_def)



lemma pendingOnce_queue:
  "queue pendingOnce =
     [\<lparr>t_id = ''task-1'', t_type = ProductTask, target = ''B08N5WRWNW'', t_marketplace = DE,
       priority = 1, createdAt = 0, scheduledAt = None, startedAt = None,
       completedAt = None, status = Pending, retryCount = 0, maxRetries = 1,
       t_error = None\<rparr>]"
  by (simp add: pendingOnce_def addTask_def retrySpec_def newTaskQueue_def sortQueue_def Let_def)

lemma pendingOnce_running: "runningTasks pendingOnce = Map.empty"
  by (simp add: pendingOnce_def addTask_def newTaskQueue_def Let_def)

lemma reachable_pendingOnce: "reachable pendingOnce"
  unfolding pendingOnce_def
  by (rule r_add [OF r_new]) (simp add: taskIds_def newTaskQueue_def)

lemma runningOnce_queue: "queue runningOnce = []"
  by (simp add: runningOnce_def getNextTask_def pendingOnce_queue Let_def)

lemma runningOnce_task:
  "runningTasks runningOnce ''task-1'' =
     Some \<lparr>t_id = ''task-1'', t_type = ProductTask, target = ''B08N5WRWNW'', t_marketplace = DE,
       priority = 1, createdAt = 0, scheduledAt = None, startedAt = Some 10,
       completedAt = None, status = Running, retryCount = 0, maxRetries = 1,
       t_error = None\<rparr>"
  by (simp add: runningOnce_def getNextTask_def pendingOnce_queue Let_def)

section \<open>Fee breakdown: the total\<close>




section \<open>Classification: first matching tier\<close>




section \<open>Deal metrics\<close>



section \<open>Batch analysis\<close>





section \<open>Price history\<close>

lemma length_marketplaceString: "length (marketplaceString mp) = 2"
  by (cases mp) simp_all

lemma marketplaceString_inj: "marketplaceString mp = marketplaceString mp' \<Longrightarrow> mp = mp'"
  by (cases mp; cases mp') simp_all

text \<open>Distinct (product, marketplace) pairs have distinct keys.\<close>

lemma getKey_inj: "getKey a mp = getKey a' mp' \<longleftrightarrow> a = a' \<and> mp = mp'"
proof
  assume eq: "getKey a mp = getKey a' mp'"
  have "(a @ '':'') @ marketplaceString mp = (a' @ '':'') @ marketplaceString mp'"
    using eq by (simp add: getKey_def)
  then have "a @ '':'' = a' @ '':'' \<and> marketplaceString mp = marketplaceString mp'"
    by (subst (asm) append_eq_append_conv) (simp_all add: length_marketplaceString)
  then show "a = a' \<and> mp = mp'"
    by (simp add: marketplaceString_inj)
next
  assume "a = a' \<and> mp = mp'"
  then show "getKey a mp = getKey a' mp'" by simp
qed

lemma addPriceEntries_snoc:
  "addPriceEntries (es @ [e]) = snd (addPriceEntry e (addPriceEntries es))"
  by (simp add: addPriceEntries_def)


lemma history_addPriceEntry:
  "history (snd (addPriceEntry e m)) (getKey a mp) =
     (if e_asin e = a \<and> e_marketplace e = mp
      then (let h1 = (case history m (getKey a mp) of None \<Rightarrow> [] | Some h \<Rightarrow> h) @ [e]
            in Some (if length h1 > 1000 then tl h1 else h1))
      else history m (getKey a mp))"
  by (auto simp add: addPriceEntry_def Let_def getKey_inj)






lemma tl_drop_snoc:
  assumes "k < length xs"
  shows "tl (drop k xs @ [e]) = drop (Suc k) (xs @ [e])"
proof -
  have "drop k xs \<noteq> []" using assms by simp
  then have "tl (drop k xs @ [e]) = tl (drop k xs) @ [e]" by simp
  also have "tl (drop k xs) = drop (Suc k) xs" by (simp add: drop_Suc tl_drop)
  finally show ?thesis using assms by simp
qed

lemma stored_addPriceEntries:
  "(case history (addPriceEntries es) (getKey a mp) of None \<Rightarrow> [] | Some h \<Rightarrow> h) =
     drop (length (entriesFor a mp es) - 1000) (entriesFor a mp es)"
proof (induction es rule: rev_induct)
  case Nil
  show ?case
    by (simp add: addPriceEntries_def newPriceHistoryManager_def entriesFor_def)
next
  case (snoc e es)
  show ?case
  proof (cases "e_asin e = a \<and> e_marketplace e = mp")
    case False
    then show ?thesis
      using snoc by (auto simp add: addPriceEntries_snoc history_addPriceEntry entriesFor_def)
  next
    case True
    define xs where "xs = entriesFor a mp es"
    have ext: "entriesFor a mp (es @ [e]) = xs @ [e]"
      using True by (simp add: entriesFor_def xs_def)
    have ih: "(case history (addPriceEntries es) (getKey a mp) of None \<Rightarrow> [] | Some h \<Rightarrow> h) =
                drop (length xs - 1000) xs"
      using snoc by (simp add: xs_def)
    have "(case history (addPriceEntries (es @ [e])) (getKey a mp) of None \<Rightarrow> [] | Some h \<Rightarrow> h) =
            (let h1 = drop (length xs - 1000) xs @ [e]
             in if length h1 > 1000 then tl h1 else h1)"
      using True by (simp add: addPriceEntries_snoc history_addPriceEntry ih Let_def)
    also have "\<dots> = drop (length (xs @ [e]) - 1000) (xs @ [e])"
    proof (cases "length xs \<ge> 1000")
      case True
      then have "length xs - 1000 < length xs" by simp
      then have "tl (drop (length xs - 1000) xs @ [e]) =
                   drop (Suc (length xs - 1000)) (xs @ [e])"
        by (rule tl_drop_snoc)
      moreover have "Suc (length xs) - 1000 = Suc (length xs - 1000)"
        using True by (simp add: Suc_diff_le)
      ultimately show ?thesis using True by (simp add: Let_def)
    next
      case False
      then show ?thesis by (simp add: Let_def)
    qed
    finally show ?thesis by (simp add: ext)
  qed
qed

text \<open>
  Claim C7. After any sequence \<open>es\<close> of \<^verbatim>\<open>addPriceEntry\<close> calls on a new manager, the
  series stored for a product and marketplace is the last 1000 of the entries added for
  that key, in the order of the calls (all of them when there are fewer), so it never
  holds more than 1000 entries and the oldest entries are the ones dropped.
\<close>

theorem history_capped:
  "getPriceHistory (addPriceEntries es) a mp None =
     drop (length (entriesFor a mp es) - 1000) (entriesFor a mp es)
   \<and> length (getPriceHistory (addPriceEntries es) a mp None) \<le> 1000"
proof -
  have "getPriceHistory (addPriceEntries es) a mp None =
     drop (length (entriesFor a mp es) - 1000) (entriesFor a mp es)"
    by (simp add: getPriceHistory_def stored_addPriceEntries)
  then show ?thesis by simp
qed

text \<open>Two entries are both kept; of 1001 entries the first one is evicted.\<close>

theorem history_capped_witness:
  "getPriceHistory (addPriceEntries [entry100, entry90]) ''B08N5WRWNW'' DE None =
     [entry100, entry90]
   \<and> getPriceHistory (addPriceEntries (replicate 1000 entry100 @ [entry90])) ''B08N5WRWNW'' DE None
       = replicate 999 entry100 @ [entry90]"
proof -
  have a: "entriesFor ''B08N5WRWNW'' DE [entry100, entry90] = [entry100, entry90]"
    by (simp add: entriesFor_def entry100_def entry90_def)
  have "filter (\<lambda>e. e_asin e = ''B08N5WRWNW'' \<and> e_marketplace e = DE) (replicate 1000 entry100)
          = replicate 1000 entry100"
    by (simp add: entry100_def)
  then have b: "entriesFor ''B08N5WRWNW'' DE (replicate 1000 entry100 @ [entry90]) =
             replicate 1000 entry100 @ [entry90]"
    by (simp add: entriesFor_def entry90_def)
  show ?thesis
    using history_capped [of "[entry100, entry90]" "''B08N5WRWNW''" DE]
      history_capped [of "replicate 1000 entry100 @ [entry90]" "''B08N5WRWNW''" DE]
    by (simp add: a b)
qed

section \<open>Deal filter\<close>



section \<open>Task queue: pending and running never overlap\<close>

lemma set_sortQueue: "set (sortQueue ts) = set ts"
  by (simp add: sortQueue_def)

lemma distinct_ids_sortQueue: "distinct (map t_id (sortQueue ts)) = distinct (map t_id ts)"
  by (simp add: sortQueue_def distinct_map)

lemma t_id_failTaskObject: "t_id (failTaskObject now err task) = t_id task"
  by (simp add: failTaskObject_def Let_def)

lemma queueInv_new: "queueInv newTaskQueue"
  by (simp add: queueInv_def newTaskQueue_def)

lemma queueInv_addTask:
  assumes "queueInv q" and "uid \<notin> taskIds q"
  shows "queueInv (snd (addTask uid now spec q))"
  using assms
  by (auto simp: queueInv_def addTask_def Let_def taskIds_def set_sortQueue
      distinct_ids_sortQueue)

lemma queueInv_getNextTask:
  assumes "queueInv q"
  shows "queueInv (snd (getNextTask now q))"
proof (cases "queue q")
  case Nil
  then show ?thesis using assms by (simp add: getNextTask_def)
next
  case (Cons t rest)
  have other: "t_id t' \<noteq> t_id t" if "t' \<in> set rest" for t'
  proof
    assume eq: "t_id t' = t_id t"
    have "t_id t' \<in> t_id ` set rest" using that by (rule imageI)
    then have "t_id t \<in> t_id ` set rest" by (simp only: eq)
    then show False using assms Cons by (simp add: queueInv_def)
  qed
  show ?thesis
    using assms Cons other
    by (auto simp: queueInv_def getNextTask_def Let_def)
qed

lemma queueInv_completeTask:
  assumes "queueInv q"
  shows "queueInv (completeTask now taskId result q)"
  using assms
  by (auto simp: queueInv_def completeTask_def Let_def split: option.splits)

lemma queueInv_failTask:
  assumes "queueInv q"
  shows "queueInv (failTask now taskId err q)"
proof (cases "runningTasks q taskId")
  case None
  then show ?thesis using assms by (simp add: failTask_def)
next
  case (Some task)
  have id: "t_id task = taskId"
    using assms Some by (simp add: queueInv_def)
  have fresh: "taskId \<notin> t_id ` set (queue q)"
    using assms Some by (auto simp: queueInv_def)
  show ?thesis
    using assms Some id fresh
    by (auto simp: queueInv_def failTask_def Let_def set_sortQueue distinct_ids_sortQueue
        t_id_failTaskObject)
qed

text \<open>
  The dequeue loop keeps the invariant; the tasks it collects have pairwise distinct ids,
  all taken from the pending queue.
\<close>

lemma getNextTasksLoop_props:
  assumes "queueInv q"
    and "distinct (map t_id tasks)"
    and "t_id ` set tasks \<subseteq> dom (runningTasks q)"
    and "getNextTasksLoop clock count i tasks q = (tasks', q')"
  shows "queueInv q' \<and> distinct (map t_id tasks')
         \<and> t_id ` set tasks' \<subseteq> t_id ` set tasks \<union> t_id ` set (queue q)
         \<and> t_id ` set tasks' \<subseteq> dom (runningTasks q')"
  using assms
proof (induction clock count i tasks q arbitrary: tasks' q' rule: getNextTasksLoop.induct)
  case (1 clock count i tasks q)
  show ?case
  proof (cases "int i < count \<and> length (queue q) > 0")
    case False
    then have "tasks' = tasks \<and> q' = q"
      using "1.prems"(4) by (subst (asm) getNextTasksLoop.simps) auto
    then show ?thesis using "1.prems" by auto
  next
    case True
    then obtain t rest where q: "queue q = t # rest"
      by (cases "queue q") auto
    define task where "task = t\<lparr>status := Running, startedAt := Some (clock i)\<rparr>"
    define q1 where
      "q1 = q\<lparr>queue := rest, runningTasks := (runningTasks q)(t_id task \<mapsto> task)\<rparr>"
    have step: "getNextTask (clock i) q = (Some task, q1)"
      by (simp add: getNextTask_def q task_def q1_def Let_def)
    have loop: "getNextTasksLoop clock count (Suc i) (tasks @ [task]) q1 = (tasks', q')"
      using "1.prems"(4) True step by (subst (asm) getNextTasksLoop.simps) simp
    have inv1: "queueInv q1"
      using queueInv_getNextTask [OF "1.prems"(1), of "clock i"] step by simp
    have tid: "t_id task = t_id t" by (simp add: task_def)
    have notrun: "runningTasks q (t_id t) = None"
      using "1.prems"(1) q by (simp add: queueInv_def)
    have d1: "distinct (map t_id (tasks @ [task]))"
      using "1.prems"(2,3) notrun tid by auto
    have s1: "t_id ` set (tasks @ [task]) \<subseteq> dom (runningTasks q1)"
      using "1.prems"(3) by (auto simp: q1_def)
    have "queueInv q' \<and> distinct (map t_id tasks')
          \<and> t_id ` set tasks' \<subseteq> t_id ` set (tasks @ [task]) \<union> t_id ` set (queue q1)
          \<and> t_id ` set tasks' \<subseteq> dom (runningTasks q')"
      using "1.IH"(2) [OF True step [symmetric] refl inv1 d1 s1 loop] .
    then show ?thesis
      using tid q by (auto simp: q1_def)
  qed
qed

lemma queueInv_getNextTasks:
  assumes "queueInv q"
  shows "queueInv (snd (getNextTasks clock count q))"
proof -
  obtain tasks' q' where r: "getNextTasksLoop clock count 0 [] q = (tasks', q')"
    by (cases "getNextTasksLoop clock count 0 [] q")
  from getNextTasksLoop_props [OF assms _ _ r] show ?thesis
    by (simp add: getNextTasks_def r)
qed

lemma reachable_queueInv: "reachable q \<Longrightarrow> queueInv q"
proof (induction rule: reachable.induct)
  case r_new
  show ?case by (rule queueInv_new)
next
  case (r_add q uid now spec)
  then show ?case by (simp add: queueInv_addTask)
next
  case (r_next q now)
  then show ?case by (simp add: queueInv_getNextTask)
next
  case (r_nexts q clock count)
  then show ?case by (simp add: queueInv_getNextTasks)
next
  case (r_complete q now taskId result)
  then show ?case by (simp add: queueInv_completeTask)
next
  case (r_fail q now taskId err)
  then show ?case by (simp add: queueInv_failTask)
qed

text \<open>
  Claim C9. In every state of a task queue reached from a new queue by calls of
  \<^verbatim>\<open>addTask\<close>, \<^verbatim>\<open>getNextTask\<close>, \<^verbatim>\<open>getNextTasks\<close>, \<^verbatim>\<open>completeTask\<close> and \<^verbatim>\<open>failTask\<close>, no
  task id occurs twice in the pending queue and none is both pending and running.
  \<^verbatim>\<open>addTask\<close>, \<^verbatim>\<open>completeTask\<close> and \<^verbatim>\<open>failTask\<close> add no id to the running map. A task
  returned by \<^verbatim>\<open>getNextTask\<close> was pending and not running, is marked running with its
  start time stamped, has left the pending queue and is in the running map; the tasks
  returned by one \<^verbatim>\<open>getNextTasks\<close> call have pairwise distinct ids, all of them pending
  and none of them running before the call.
\<close>

theorem pending_running_disjoint:
  assumes "reachable q"
  shows "distinct (map t_id (queue q))
    \<and> t_id ` set (queue q) \<inter> dom (runningTasks q) = {}
    \<and> dom (runningTasks (snd (addTask uid now spec q))) \<subseteq> dom (runningTasks q)
    \<and> dom (runningTasks (completeTask now taskId result q)) \<subseteq> dom (runningTasks q)
    \<and> dom (runningTasks (failTask now taskId err q)) \<subseteq> dom (runningTasks q)
    \<and> (\<forall>task q'. getNextTask now q = (Some task, q') \<longrightarrow>
          status task = Running \<and> startedAt task = Some now
          \<and> t_id task \<in> t_id ` set (queue q)
          \<and> t_id task \<notin> dom (runningTasks q)
          \<and> t_id task \<notin> t_id ` set (queue q')
          \<and> runningTasks q' (t_id task) = Some task)
    \<and> (\<forall>tasks q'. getNextTasks clock count q = (tasks, q') \<longrightarrow>
          distinct (map t_id tasks)
          \<and> t_id ` set tasks \<subseteq> t_id ` set (queue q)
          \<and> t_id ` set tasks \<inter> dom (runningTasks q) = {})"
proof -
  have inv: "queueInv q" using assms by (rule reachable_queueInv)
  have a: "distinct (map t_id (queue q))"
    using inv by (simp add: queueInv_def)
  have b: "t_id ` set (queue q) \<inter> dom (runningTasks q) = {}"
    using inv by (auto simp: queueInv_def)
  have c: "dom (runningTasks (snd (addTask uid now spec q))) \<subseteq> dom (runningTasks q)"
    by (simp add: addTask_def Let_def)
  have d: "dom (runningTasks (completeTask now taskId result q)) \<subseteq> dom (runningTasks q)"
    by (auto simp: completeTask_def Let_def split: option.splits)
  have e: "dom (runningTasks (failTask now taskId err q)) \<subseteq> dom (runningTasks q)"
    by (auto simp: failTask_def Let_def split: option.splits if_splits)
  have f: "status task = Running \<and> startedAt task = Some now
          \<and> t_id task \<in> t_id ` set (queue q)
          \<and> t_id task \<notin> dom (runningTasks q)
          \<and> t_id task \<notin> t_id ` set (queue q')
          \<and> runningTasks q' (t_id task) = Some task"
    if "getNextTask now q = (Some task, q')" for task q'
    using that inv
    by (auto simp: getNextTask_def Let_def queueInv_def split: list.splits)
  have g: "distinct (map t_id tasks)
          \<and> t_id ` set tasks \<subseteq> t_id ` set (queue q)
          \<and> t_id ` set tasks \<inter> dom (runningTasks q) = {}"
    if "getNextTasks clock count q = (tasks, q')" for tasks q'
  proof -
    have r: "getNextTasksLoop clock count 0 [] q = (tasks, q')"
      using that by (simp add: getNextTasks_def)
    from getNextTasksLoop_props [OF inv _ _ r]
    have "distinct (map t_id tasks)" and "t_id ` set tasks \<subseteq> t_id ` set (queue q)"
      by simp_all
    then show ?thesis using b by auto
  qed
  show ?thesis using a b c d e f g by blast
qed

text \<open>A queue with one pending task, and the dequeue of that task.\<close>

theorem pending_running_disjoint_witness:
  "reachable pendingOnce
   \<and> distinct (map t_id (queue pendingOnce))
   \<and> t_id ` set (queue pendingOnce) \<inter> dom (runningTasks pendingOnce) = {}
   \<and> getNextTask 10 pendingOnce =
       (runningTasks runningOnce ''task-1'', runningOnce)
   \<and> map_option status (runningTasks runningOnce ''task-1'') = Some Running
   \<and> ''task-1'' \<notin> t_id ` set (queue runningOnce)
   \<and> map t_id (fst (getNextTasks (\<lambda>i. 10) 5 pendingOnce)) = [''task-1'']"
proof -
  have r: "reachable pendingOnce" by (rule reachable_pendingOnce)
  have n: "getNextTask 10 pendingOnce = (runningTasks runningOnce ''task-1'', runningOnce)"
    by (simp add: runningOnce_def getNextTask_def pendingOnce_queue Let_def)
  have g: "map t_id (fst (getNextTasks (\<lambda>i. 10) 5 pendingOnce)) = [''task-1'']"
    by (simp add: getNextTasks_def getNextTasksLoop.simps getNextTask_def pendingOnce_queue
        Let_def)
  from pending_running_disjoint [OF r, of _ 10]
  have "distinct (map t_id (queue pendingOnce))
     \<and> t_id ` set (queue pendingOnce) \<inter> dom (runningTasks pendingOnce) = {}
     \<and> (\<forall>task q'. getNextTask 10 pendingOnce = (Some task, q') \<longrightarrow>
          status task = Running \<and> t_id task \<notin> t_id ` set (queue q'))"
    by blast
  with r n g show ?thesis
    by (simp add: runningOnce_task runningOnce_queue)
qed

section \<open>Task queue: completing or failing a task that is not running\<close>

text \<open>
  Claim C10. \<^verbatim>\<open>completeTask\<close> and \<^verbatim>\<open>failTask\<close> called with an id that is not in the
  running map (unknown, still pending, already completed or failed) return the queue
  unchanged: pending queue, running map, completed results and durations are all the
  same, and no error is raised.
\<close>

theorem not_running_noop:
  assumes "runningTasks q taskId = None"
  shows "completeTask now taskId result q = q \<and> failTask now taskId err q = q"
  using assms by (simp add: completeTask_def failTask_def)

text \<open>Completing or failing a task that is still pending changes nothing.\<close>

theorem not_running_noop_witness:
  "runningTasks pendingOnce ''task-1'' = None
   \<and> completeTask 20 ''task-1'' okResult pendingOnce = pendingOnce
   \<and> failTask 20 ''task-1'' ''timeout'' pendingOnce = pendingOnce"
proof -
  have h: "runningTasks pendingOnce ''task-1'' = None"
    by (simp add: pendingOnce_running)
  from not_running_noop [OF h, of 20 okResult "''timeout''"] h show ?thesis by simp
qed

section \<open>Task queue: failing a running task\<close>

text \<open>
  What \<^verbatim>\<open>failTask\<close> does with a running task: the retry count is incremented, and the
  task goes back to the pending queue exactly when the incremented count is below
  \<^verbatim>\<open>maxRetries\<close>; otherwise it is failed for good and its result is recorded.
\<close>

lemma failTask_requeues_iff:
  assumes "runningTasks q taskId = Some task"
  shows "queue (failTask now taskId err q) =
           (if retryCount task + 1 < maxRetries task
            then sortQueue (queue q @ [failTaskObject now err task])
            else queue q)
         \<and> status (failTaskObject now err task) =
             (if retryCount task + 1 < maxRetries task then Pending else Failed)
         \<and> retryCount (failTaskObject now err task) = retryCount task + 1"
  using assms by (simp add: failTask_def failTaskObject_def Let_def)


end
